theory Spec2Isabelle
  imports Main "HOL-Library.Word"
begin

unbundle bit_operations_syntax

section \<open>The flasher stub: stub\_flasher.c\<close>

text \<open>
  A shallow embedding of \<^verbatim>\<open>stub_flasher.c\<close>: the checksum, the per-byte receive
  handler of the UART interrupt, the length check and the command loop. The C integer
  types are words of their width; \<^verbatim>\<open>int\<close> values (error codes, the result of the
  SLIP decoder, lengths computed by subtraction) are \<^typ>\<open>int\<close>.
\<close>

type_synonym u8 = "8 word"
type_synonym u16 = "16 word"
type_synonym u32 = "32 word"

subsection \<open>What the included headers declare\<close>

text \<open>
  The headers \<^verbatim>\<open>stub_flasher.h\<close>, \<^verbatim>\<open>stub_commands.h\<close>, \<^verbatim>\<open>slip.h\<close> and
  \<^verbatim>\<open>soc_support.h\<close> are not among the sources. The constants the C file takes from
  them are the fields of a record, and every definition below takes that record as its
  first argument: nothing is assumed about their values except where a theorem says so.
  \<open>ESP32\<close> and \<open>ESP8266\<close> are the two preprocessor symbols the file tests.
\<close>

record stub_header =
  MAX_WRITE_BLOCK :: nat
  ESP_BAD_DATA_LEN :: int
  ESP_BAD_DATA_CHECKSUM :: int
  ESP_NOT_IN_FLASH_MODE :: int
  ESP_CMD_NOT_IMPLEMENTED :: int
  SLIP_FINISHED_FRAME :: int
  ESP32 :: bool
  ESP8266 :: bool

text \<open>
  Modelled from the spec: the value of the enumerator \<^verbatim>\<open>ESP_OK\<close>, declared in a header
  that is not among the sources. The spec fixes success as error code 0 ("0 = success,
  non-zero = collaborator-specific failure", and "error==0" in scenario B).
\<close>

definition ESP_OK :: int where
  "ESP_OK = 0"

text \<open>
  The enumeration \<^verbatim>\<open>esp_command\<close>: one constructor for each enumerator that
  \<^verbatim>\<open>cmd_loop\<close> names in a case label, and \<open>ESP_OTHER_OP\<close> for every other value of
  the op byte (no case label matches it).
\<close>

datatype esp_command =
    ESP_ERASE_FLASH
  | ESP_ERASE_REGION
  | ESP_SET_BAUD
  | ESP_READ_FLASH
  | ESP_FLASH_VERIFY_MD5
  | ESP_FLASH_BEGIN
  | ESP_FLASH_DEFLATED_BEGIN
  | ESP_FLASH_DATA
  | ESP_FLASH_DEFLATED_DATA
  | ESP_FLASH_END
  | ESP_FLASH_DEFLATED_END
  | ESP_SPI_SET_PARAMS
  | ESP_SPI_ATTACH
  | ESP_WRITE_REG
  | ESP_READ_REG
  | ESP_OTHER_OP u8

text \<open>
  Modelled from the spec: the layout of \<^verbatim>\<open>esp_command_req_t\<close> (declared in
  \<^verbatim>\<open>stub_flasher.h\<close>): an op byte, a 16-bit \<open>data_len\<close>, a checksum byte, and the
  payload \<open>data_buf\<close>. The payload is memory: \<open>data_buf c i\<close> is the byte at
  \<^verbatim>\<open>command->data_buf[i]\<close>, a byte of the receive buffer whatever \<open>data_len\<close> says.
\<close>

record esp_command_req_t =
  op :: esp_command
  data_len :: u16
  checksum :: u8
  data_buf :: "nat \<Rightarrow> u8"

text \<open>
  \<^verbatim>\<open>uint32_t *data_words = (uint32_t *)command->data_buf\<close>: word \<open>i\<close> is made of the
  four bytes at \<open>4 * i\<close>, least significant first (the spec's wire format is
  little-endian, as are the two chips).
\<close>

definition data_words :: "esp_command_req_t \<Rightarrow> nat \<Rightarrow> u32" where
  "data_words c i =
     ucast (data_buf c (4 * i))
     OR push_bit 8 (ucast (data_buf c (4 * i + 1)))
     OR push_bit 16 (ucast (data_buf c (4 * i + 2)))
     OR push_bit 24 (ucast (data_buf c (4 * i + 3)))"

subsection \<open>calculate\_checksum\<close>

text \<open>
  \<^verbatim>\<open>res = 0xef; for (i = 0; i < length; i++) res ^= buf[i];\<close> The buffer is a pointer,
  here the memory it points to; a length that is not positive runs no iteration.
\<close>

definition calculate_checksum :: "(nat \<Rightarrow> u8) \<Rightarrow> int \<Rightarrow> u8" where
  "calculate_checksum buf len = fold (\<lambda>i res. res XOR buf i) [0..<nat len] 0xef"

subsection \<open>verify\_data\_len\<close>

definition verify_data_len :: "stub_header \<Rightarrow> esp_command_req_t \<Rightarrow> u8 \<Rightarrow> int" where
  "verify_data_len h command len =
     (if uint (data_len command) = uint len then ESP_OK else ESP_BAD_DATA_LEN h)"

subsection \<open>The receive buffers and uart\_isr\_receive\<close>

text \<open>
  \<^verbatim>\<open>uart_buf_t\<close>: the two buffers, each of \<^verbatim>\<open>MAX_WRITE_BLOCK+64\<close> bytes, the pointer
  \<open>reading_buf\<close> (to \<open>buf_a\<close> or to \<open>buf_b\<close>; \<^verbatim>\<open>stub_main\<close> sets it to \<open>buf_a\<close>
  before it attaches the interrupt handler), the 16-bit count \<open>read\<close>, the state of the
  SLIP decoder (a type of \<^verbatim>\<open>slip.h\<close>, kept abstract), and the pointer \<open>command\<close>
  (\<^verbatim>\<open>NULL\<close> is \<open>None\<close>).
\<close>

datatype buf_ref = BUF_A | BUF_B

record 's uart_buf_t =
  buf_a :: "u8 list"
  buf_b :: "u8 list"
  reading_buf :: buf_ref
  read :: u16
  state :: 's
  command :: "buf_ref option"

text \<open>
  \<^verbatim>\<open>ub.reading_buf[i] = v\<close>. A store beyond the end of the array is a memory error of
  the C program: the result is \<open>None\<close>.
\<close>

definition store :: "nat \<Rightarrow> u8 \<Rightarrow> 's uart_buf_t \<Rightarrow> 's uart_buf_t option" where
  "store i v ub =
     (case reading_buf ub of
        BUF_A \<Rightarrow> if i < length (buf_a ub) then Some (ub\<lparr>buf_a := (buf_a ub)[i := v]\<rparr>) else None
      | BUF_B \<Rightarrow> if i < length (buf_b ub) then Some (ub\<lparr>buf_b := (buf_b ub)[i := v]\<rparr>) else None)"

text \<open>
  \<^verbatim>\<open>uart_isr_receive\<close>. The decoder \<^verbatim>\<open>SLIP_recv_byte\<close> is a function of \<^verbatim>\<open>slip.h\<close> and
  a parameter here: it returns the \<^verbatim>\<open>int16_t\<close> result and the new decoder state.
  The first component of the pair computed first is \<open>r\<close> after the first \<^verbatim>\<open>if\<close>.
\<close>

definition uart_isr_receive ::
  "stub_header \<Rightarrow> (u8 \<Rightarrow> 's \<Rightarrow> int \<times> 's) \<Rightarrow> u8 \<Rightarrow> 's uart_buf_t \<Rightarrow> 's uart_buf_t option" where
  "uart_isr_receive h SLIP_recv_byte byte ub =
     (case SLIP_recv_byte byte (state ub) of (r, st) \<Rightarrow>
        (case (if 0 \<le> r then
                 (case store (unat (read ub)) (word_of_int r) (ub\<lparr>state := st\<rparr>) of
                    None \<Rightarrow> None
                  | Some ub1 \<Rightarrow>
                      let ub2 = ub1\<lparr>read := read ub1 + 1\<rparr> in
                      if unat (read ub2) = MAX_WRITE_BLOCK h + 64
                      then Some (SLIP_FINISHED_FRAME h, ub2)
                      else Some (r, ub2))
               else Some (r, ub\<lparr>state := st\<rparr>)) of
           None \<Rightarrow> None
         | Some (r2, ub3) \<Rightarrow>
             if r2 = SLIP_FINISHED_FRAME h then
               (if reading_buf ub3 = BUF_A
                then Some (ub3\<lparr>command := Some BUF_A, reading_buf := BUF_B, read := 0\<rparr>)
                else Some (ub3\<lparr>command := Some BUF_B, reading_buf := BUF_A, read := 0\<rparr>))
             else Some ub3))"

text \<open>
  \<^verbatim>\<open>uart_isr\<close> hands every byte of the receive FIFO to \<^verbatim>\<open>uart_isr_receive\<close>, in
  order; the FIFO is the list of its bytes. Reading and clearing the interrupt status do
  not touch the buffers and are left out.
\<close>

fun uart_isr ::
  "stub_header \<Rightarrow> (u8 \<Rightarrow> 's \<Rightarrow> int \<times> 's) \<Rightarrow> u8 list \<Rightarrow> 's uart_buf_t \<Rightarrow> 's uart_buf_t option" where
  "uart_isr h SLIP_recv_byte [] ub = Some ub"
| "uart_isr h SLIP_recv_byte (byte # fifo) ub =
     (case uart_isr_receive h SLIP_recv_byte byte ub of
        None \<Rightarrow> None
      | Some ub' \<Rightarrow> uart_isr h SLIP_recv_byte fifo ub')"

text \<open>
  The buffers as \<^verbatim>\<open>stub_main\<close> leaves them when it attaches the handler: the bss is
  zeroed, and \<open>reading_buf\<close> points to \<open>buf_a\<close>. \<open>st0\<close> is the zeroed decoder state.
\<close>

definition ub_init :: "stub_header \<Rightarrow> 's \<Rightarrow> 's uart_buf_t" where
  "ub_init h st0 =
     \<lparr>buf_a = replicate (MAX_WRITE_BLOCK h + 64) 0, buf_b = replicate (MAX_WRITE_BLOCK h + 64) 0,
      reading_buf = BUF_A, read = 0, state = st0, command = None\<rparr>"

subsection \<open>The collaborators of cmd\_loop\<close>

text \<open>
  Modelled from the spec: the layout of \<^verbatim>\<open>esp_command_response_t\<close> (declared in
  \<^verbatim>\<open>stub_flasher.h\<close>): the flag \<open>resp\<close>, the echoed op, a 16-bit length and a 32-bit
  value (the field \<^verbatim>\<open>value\<close> of the C struct is \<open>value_ret\<close> here).
\<close>

record esp_command_response_t =
  resp :: u8
  op_ret :: esp_command
  len_ret :: u16
  value_ret :: u32

text \<open>
  Everything \<^verbatim>\<open>cmd_loop\<close> calls outside the file is a call on the platform: the flash
  and SPI handlers, the register access macros, the ROM functions. None of them is among
  the sources. A platform gives each of them as a function on a state \<open>'w\<close> of its own,
  returning the C result with the new state. \<open>handle_spi_set_params\<close> returns its
  result and the value it leaves in \<^verbatim>\<open>status\<close>; the two data handlers get the bytes
  from \<^verbatim>\<open>data_buf + 16\<close> up to \<open>data_len\<close> and the length expression's value.
\<close>

record 'w platform =
  REG_READ :: "u32 \<Rightarrow> 'w \<Rightarrow> u32 \<times> 'w"
  REG_WRITE :: "u32 \<Rightarrow> u32 \<Rightarrow> 'w \<Rightarrow> 'w"
  SPIEraseChip :: "'w \<Rightarrow> int \<times> 'w"
  handle_flash_erase :: "u32 \<Rightarrow> u32 \<Rightarrow> 'w \<Rightarrow> int \<times> 'w"
  handle_flash_get_md5sum :: "u32 \<Rightarrow> u32 \<Rightarrow> 'w \<Rightarrow> int \<times> 'w"
  handle_flash_begin :: "u32 \<Rightarrow> u32 \<Rightarrow> 'w \<Rightarrow> int \<times> 'w"
  handle_flash_deflated_begin :: "u32 \<Rightarrow> u32 \<Rightarrow> u32 \<Rightarrow> 'w \<Rightarrow> int \<times> 'w"
  is_in_flash_mode :: "'w \<Rightarrow> bool \<times> 'w"
  get_flash_error :: "'w \<Rightarrow> int \<times> 'w"
  handle_flash_end :: "'w \<Rightarrow> int \<times> 'w"
  handle_spi_set_params :: "u32 list \<Rightarrow> 'w \<Rightarrow> (int \<times> int) \<times> 'w"
  handle_spi_attach :: "u32 \<Rightarrow> u32 \<Rightarrow> 'w \<Rightarrow> int \<times> 'w"
  ets_get_detected_xtal_freq :: "'w \<Rightarrow> u32 \<times> 'w"
  ets_delay_us :: "nat \<Rightarrow> 'w \<Rightarrow> 'w"
  uart_div_modify :: "nat \<Rightarrow> u32 \<Rightarrow> 'w \<Rightarrow> 'w"
  handle_flash_read :: "u32 \<Rightarrow> u32 \<Rightarrow> u32 \<Rightarrow> u32 \<Rightarrow> 'w \<Rightarrow> 'w"
  handle_flash_data :: "u8 list \<Rightarrow> int \<Rightarrow> 'w \<Rightarrow> 'w"
  handle_flash_deflated_data :: "u8 list \<Rightarrow> int \<Rightarrow> 'w \<Rightarrow> 'w"
  uart_tx_flush :: "nat \<Rightarrow> 'w \<Rightarrow> 'w"

text \<open>
  The trace of a run: every call on the platform and every call of the SLIP sender, in
  the order \<^verbatim>\<open>cmd_loop\<close> makes them, with the arguments. That a handler is not invoked
  is that its event is not in the trace.
\<close>

datatype event =
    Ev_REG_READ u32
  | Ev_REG_WRITE u32 u32
  | Ev_SLIP_send_frame_delimiter
  | Ev_SLIP_send_frame_data_buf esp_command_response_t
  | Ev_SLIP_send_frame_data int
  | Ev_SPIEraseChip
  | Ev_handle_flash_erase u32 u32
  | Ev_handle_flash_get_md5sum u32 u32
  | Ev_handle_flash_begin u32 u32
  | Ev_handle_flash_deflated_begin u32 u32 u32
  | Ev_is_in_flash_mode
  | Ev_get_flash_error
  | Ev_handle_flash_end
  | Ev_handle_spi_set_params "u32 list"
  | Ev_handle_spi_attach u32 u32
  | Ev_ets_get_detected_xtal_freq
  | Ev_ets_delay_us nat
  | Ev_uart_div_modify nat u32
  | Ev_handle_flash_read u32 u32 u32 u32
  | Ev_handle_flash_data "u8 list" int
  | Ev_handle_flash_deflated_data "u8 list" int
  | Ev_uart_tx_flush nat
  | Ev_software_reset

type_synonym 'w st = "'w \<times> event list"

definition call :: "event \<Rightarrow> ('w \<Rightarrow> 'a \<times> 'w) \<Rightarrow> 'w st \<Rightarrow> 'a \<times> 'w st" where
  "call e f s = (case f (fst s) of (r, w) \<Rightarrow> (r, (w, snd s @ [e])))"

definition call_void :: "event \<Rightarrow> ('w \<Rightarrow> 'w) \<Rightarrow> 'w st \<Rightarrow> 'w st" where
  "call_void e f s = (f (fst s), snd s @ [e])"

definition emit :: "event \<Rightarrow> 'w st \<Rightarrow> 'w st" where
  "emit e s = (fst s, snd s @ [e])"

text \<open>
  The C operator \<^verbatim>\<open>a || b\<close>: its value is the \<^verbatim>\<open>int\<close> 1 or 0, and \<open>b\<close> is evaluated
  only when \<open>a\<close> is 0.
\<close>

definition c_or :: "int \<Rightarrow> ('s \<Rightarrow> int \<times> 's) \<Rightarrow> 's \<Rightarrow> int \<times> 's" where
  "c_or a b s =
     (if a \<noteq> 0 then (1, s)
      else (case b s of (r, s') \<Rightarrow> (if r \<noteq> 0 then 1 else 0, s')))"

subsection \<open>baud\_rate\_to\_divider\<close>

text \<open>
  The division \<^verbatim>\<open>master_freq / baud_rate\<close> by zero is undefined in C: the result is
  \<open>None\<close> there.
\<close>

definition baud_rate_to_divider ::
  "stub_header \<Rightarrow> 'w platform \<Rightarrow> u32 \<Rightarrow> 'w st \<Rightarrow> u32 option \<times> 'w st" where
  "baud_rate_to_divider h P baud_rate s =
     (case (if ESP8266 h then (52 * 1000 * 1000, s)
            else (case call Ev_ets_get_detected_xtal_freq (ets_get_detected_xtal_freq P) s of
                    (f, s') \<Rightarrow> (push_bit 4 f, s'))) of
        (master_freq, s') \<Rightarrow>
          (if baud_rate = 0 then None
           else Some ((master_freq + baud_rate div 2) div baud_rate), s'))"

subsection \<open>cmd\_loop\<close>

text \<open>
  The payload bytes a data handler is given: \<^verbatim>\<open>command->data_buf + 16\<close>, of length
  \<^verbatim>\<open>command->data_len - 16\<close>.
\<close>

definition payload :: "esp_command_req_t \<Rightarrow> u8 list" where
  "payload c = map (\<lambda>i. data_buf c (16 + i)) [0..<nat (uint (data_len c) - 16)]"

text \<open>
  The case \<^verbatim>\<open>ESP_FLASH_DATA\<close>, \<^verbatim>\<open>ESP_FLASH_DEFLATED_DATA\<close> of the first switch. The
  comparison \<^verbatim>\<open>data_words[0] != payload_len\<close> is between a \<^verbatim>\<open>uint32_t\<close> and an
  \<^verbatim>\<open>int\<close>: the \<^verbatim>\<open>int\<close> is converted to 32 bits unsigned.
\<close>

definition flash_data_stage ::
  "stub_header \<Rightarrow> 'w platform \<Rightarrow> esp_command_req_t \<Rightarrow> 'w st \<Rightarrow> int \<times> 'w st" where
  "flash_data_stage h P c s =
     (case call Ev_is_in_flash_mode (is_in_flash_mode P) s of (in_flash_mode, s1) \<Rightarrow>
        if in_flash_mode then
          (case call Ev_get_flash_error (get_flash_error P) s1 of (error0, s2) \<Rightarrow>
             let payload_len = uint (data_len c) - 16;
                 error1 = (if data_words c 0 \<noteq> word_of_int payload_len
                           then ESP_BAD_DATA_LEN h else error0);
                 data_checksum = calculate_checksum (\<lambda>i. data_buf c (16 + i)) payload_len;
                 error2 = (if data_checksum \<noteq> checksum c
                           then ESP_BAD_DATA_CHECKSUM h else error1)
             in (error2, s2))
        else (ESP_NOT_IN_FLASH_MODE h, s1))"

text \<open>
  The first switch, "before sending error/status": the result is the pair of
  \<^verbatim>\<open>error\<close> and \<^verbatim>\<open>status\<close>. \<^verbatim>\<open>error\<close> starts as \<^verbatim>\<open>ESP_CMD_NOT_IMPLEMENTED\<close> and
  \<^verbatim>\<open>status\<close> as 0. The case \<^verbatim>\<open>ESP_SPI_SET_PARAMS\<close> writes its \<^verbatim>\<open>||\<close> out, since
  the handler also sets \<^verbatim>\<open>status\<close>.
\<close>

definition first_stage ::
  "stub_header \<Rightarrow> 'w platform \<Rightarrow> esp_command_req_t \<Rightarrow> 'w st \<Rightarrow> (int \<times> int) \<times> 'w st" where
  "first_stage h P c s =
     (case op c of
        ESP_ERASE_FLASH \<Rightarrow>
          (case c_or (verify_data_len h c 0) (call Ev_SPIEraseChip (SPIEraseChip P)) s of
             (error, s') \<Rightarrow> ((error, 0), s'))
      | ESP_ERASE_REGION \<Rightarrow>
          (case c_or (verify_data_len h c 8)
                  (call (Ev_handle_flash_erase (data_words c 0) (data_words c 1))
                     (handle_flash_erase P (data_words c 0) (data_words c 1))) s of
             (error, s') \<Rightarrow> ((error, 0), s'))
      | ESP_SET_BAUD \<Rightarrow> ((verify_data_len h c 8, 0), s)
      | ESP_READ_FLASH \<Rightarrow> ((verify_data_len h c 16, 0), s)
      | ESP_FLASH_VERIFY_MD5 \<Rightarrow>
          (case c_or (verify_data_len h c 16)
                  (call (Ev_handle_flash_get_md5sum (data_words c 0) (data_words c 1))
                     (handle_flash_get_md5sum P (data_words c 0) (data_words c 1))) s of
             (error, s') \<Rightarrow> ((error, 0), s'))
      | ESP_FLASH_BEGIN \<Rightarrow>
          (case c_or (verify_data_len h c 16)
                  (call (Ev_handle_flash_begin (data_words c 1 * data_words c 2) (data_words c 3))
                     (handle_flash_begin P (data_words c 1 * data_words c 2) (data_words c 3))) s of
             (error, s') \<Rightarrow> ((error, 0), s'))
      | ESP_FLASH_DEFLATED_BEGIN \<Rightarrow>
          (case c_or (verify_data_len h c 16)
                  (call (Ev_handle_flash_deflated_begin (data_words c 0)
                           (data_words c 1 * data_words c 2) (data_words c 3))
                     (handle_flash_deflated_begin P (data_words c 0)
                           (data_words c 1 * data_words c 2) (data_words c 3))) s of
             (error, s') \<Rightarrow> ((error, 0), s'))
      | ESP_FLASH_DATA \<Rightarrow>
          (case flash_data_stage h P c s of (error, s') \<Rightarrow> ((error, 0), s'))
      | ESP_FLASH_DEFLATED_DATA \<Rightarrow>
          (case flash_data_stage h P c s of (error, s') \<Rightarrow> ((error, 0), s'))
      | ESP_FLASH_END \<Rightarrow>
          (case call Ev_handle_flash_end (handle_flash_end P) s of
             (error, s') \<Rightarrow> ((error, 0), s'))
      | ESP_FLASH_DEFLATED_END \<Rightarrow>
          (case call Ev_handle_flash_end (handle_flash_end P) s of
             (error, s') \<Rightarrow> ((error, 0), s'))
      | ESP_SPI_SET_PARAMS \<Rightarrow>
          (if verify_data_len h c 24 \<noteq> 0 then ((1, 0), s)
           else (case call (Ev_handle_spi_set_params (map (data_words c) [0..<6]))
                        (handle_spi_set_params P (map (data_words c) [0..<6])) s of
                   ((r, status), s') \<Rightarrow> ((if r \<noteq> 0 then 1 else 0, status), s')))
      | ESP_SPI_ATTACH \<Rightarrow>
          (case c_or (verify_data_len h c 8)
                  (call (Ev_handle_spi_attach (data_words c 0) (data_words c 1 AND 0xFF))
                     (handle_spi_attach P (data_words c 0) (data_words c 1 AND 0xFF))) s of
             (error, s') \<Rightarrow> ((error, 0), s'))
      | ESP_WRITE_REG \<Rightarrow>
          (let error = verify_data_len h c 16 in
           if error = ESP_OK
           then ((error, 0), call_void (Ev_REG_WRITE (data_words c 0) (data_words c 1))
                               (REG_WRITE P (data_words c 0) (data_words c 1)) s)
           else ((error, 0), s))
      | ESP_READ_REG \<Rightarrow> ((verify_data_len h c 4, 0), s)
      | ESP_OTHER_OP b \<Rightarrow> ((ESP_CMD_NOT_IMPLEMENTED h, 0), s))"

text \<open>
  How one pass of the loop ends: the loop goes on to wait for the next command, or
  \<^verbatim>\<open>software_reset\<close> was called, or the division in \<^verbatim>\<open>baud_rate_to_divider\<close> was by
  zero.

  Modelled from the spec: \<^verbatim>\<open>software_reset\<close> (not among the sources) reboots the chip,
  and "control never returns to this core afterward".
\<close>

datatype loop_status = Next_command | Reset | Division_by_zero

text \<open>
  The second switch, "after sending this response", under \<^verbatim>\<open>if (error == ESP_OK)\<close>.
\<close>

definition second_stage ::
  "stub_header \<Rightarrow> 'w platform \<Rightarrow> esp_command_req_t \<Rightarrow> int \<Rightarrow> 'w st \<Rightarrow> loop_status \<times> 'w st" where
  "second_stage h P c error s =
     (if error = ESP_OK then
        (case op c of
           ESP_SET_BAUD \<Rightarrow>
             (case baud_rate_to_divider h P (data_words c 0)
                     (call_void (Ev_ets_delay_us 10000) (ets_delay_us P 10000) s) of
                (None, s') \<Rightarrow> (Division_by_zero, s')
              | (Some d, s') \<Rightarrow>
                  (Next_command,
                   call_void (Ev_ets_delay_us 1000) (ets_delay_us P 1000)
                     (call_void (Ev_uart_div_modify 0 d) (uart_div_modify P 0 d) s')))
         | ESP_READ_FLASH \<Rightarrow>
             (Next_command,
              call_void (Ev_handle_flash_read (data_words c 0) (data_words c 1)
                           (data_words c 2) (data_words c 3))
                (handle_flash_read P (data_words c 0) (data_words c 1)
                           (data_words c 2) (data_words c 3)) s)
         | ESP_FLASH_DATA \<Rightarrow>
             (Next_command,
              call_void (Ev_handle_flash_data (payload c) (uint (data_len c) - 16))
                (handle_flash_data P (payload c) (uint (data_len c) - 16)) s)
         | ESP_FLASH_DEFLATED_DATA \<Rightarrow>
             (Next_command,
              call_void (Ev_handle_flash_deflated_data (payload c) (uint (data_len c) - 16))
                (handle_flash_deflated_data P (payload c) (uint (data_len c) - 16)) s)
         | ESP_FLASH_END \<Rightarrow>
             (if data_words c 0 = 0 then
                (Reset,
                 emit Ev_software_reset
                   (if ESP32 h then call_void (Ev_uart_tx_flush 0) (uart_tx_flush P 0) s
                    else call_void (Ev_ets_delay_us 10000) (ets_delay_us P 10000) s))
              else (Next_command, s))
         | _ \<Rightarrow> (Next_command, s))
      else (Next_command, s))"

text \<open>
  One pass of \<^verbatim>\<open>while(1)\<close> in \<^verbatim>\<open>cmd_loop\<close>, from the command \<open>c\<close> it found in
  \<^verbatim>\<open>ub.command\<close>.
\<close>

definition cmd_iter ::
  "stub_header \<Rightarrow> 'w platform \<Rightarrow> esp_command_req_t \<Rightarrow> 'w st \<Rightarrow> loop_status \<times> 'w st" where
  "cmd_iter h P c s =
     (case (if op c = ESP_READ_REG \<and> data_len c = 4
            then call (Ev_REG_READ (data_words c 0)) (REG_READ P (data_words c 0)) s
            else (0, s)) of
        (v, s1) \<Rightarrow>
          let s2 = emit (Ev_SLIP_send_frame_data_buf
                           \<lparr>resp = 1, op_ret = op c, len_ret = 0, value_ret = v\<rparr>)
                     (emit Ev_SLIP_send_frame_delimiter s1)
          in
          if MAX_WRITE_BLOCK h + 16 < unat (data_len c) then
            (Next_command,
             emit Ev_SLIP_send_frame_delimiter
               (emit (Ev_SLIP_send_frame_data 0xEE)
                  (emit (Ev_SLIP_send_frame_data (ESP_BAD_DATA_LEN h)) s2)))
          else
            (case first_stage h P c s2 of
               ((error, status), s3) \<Rightarrow>
                 second_stage h P c error
                   (emit Ev_SLIP_send_frame_delimiter
                      (emit (Ev_SLIP_send_frame_data status)
                         (emit (Ev_SLIP_send_frame_data error) s3)))))"

text \<open>
  \<^verbatim>\<open>cmd_loop\<close> on the commands the interrupt handler publishes, in order. When none is
  left the loop spins in \<^verbatim>\<open>while(ub.command == NULL)\<close>: the status is \<open>Next_command\<close>.
\<close>

fun cmd_loop ::
  "stub_header \<Rightarrow> 'w platform \<Rightarrow> esp_command_req_t list \<Rightarrow> 'w st \<Rightarrow> loop_status \<times> 'w st" where
  "cmd_loop h P [] s = (Next_command, s)"
| "cmd_loop h P (c # cs) s =
     (case cmd_iter h P c s of
        (Next_command, s') \<Rightarrow> cmd_loop h P cs s'
      | (Reset, s') \<Rightarrow> (Reset, s')
      | (Division_by_zero, s') \<Rightarrow> (Division_by_zero, s'))"

subsection \<open>Predicates and concrete inputs of the theorems\<close>

text \<open>
  The receive buffers are well formed: both arrays have their declared size and the
  count \<open>read\<close> is inside it.
\<close>

definition ub_ok :: "stub_header \<Rightarrow> 's uart_buf_t \<Rightarrow> bool" where
  "ub_ok h ub =
     (length (buf_a ub) = MAX_WRITE_BLOCK h + 64 \<and> length (buf_b ub) = MAX_WRITE_BLOCK h + 64
      \<and> unat (read ub) < MAX_WRITE_BLOCK h + 64)"

text \<open>The array a buffer pointer points to.\<close>

definition deref :: "buf_ref \<Rightarrow> 's uart_buf_t \<Rightarrow> u8 list" where
  "deref p ub = (case p of BUF_A \<Rightarrow> buf_a ub | BUF_B \<Rightarrow> buf_b ub)"

text \<open>
  A header for the concrete inputs: the build for the ESP32, with the error codes of the
  esptool protocol, a write block of 16 KiB and -2 for the end of a SLIP frame. The
  theorems hold for every header; this one instantiates them.
\<close>

definition esp32_header :: stub_header where
  "esp32_header =
     \<lparr>MAX_WRITE_BLOCK = 0x4000, ESP_BAD_DATA_LEN = 0xC0, ESP_BAD_DATA_CHECKSUM = 0xC1,
      ESP_NOT_IN_FLASH_MODE = 0xC6, ESP_CMD_NOT_IMPLEMENTED = 0xFF, SLIP_FINISHED_FRAME = - 2,
      ESP32 = True, ESP8266 = False\<rparr>"

text \<open>
  A decoder for the concrete inputs: the frame delimiter 0xC0 ends a frame, every other
  byte is data. It has no state.
\<close>

definition raw_decoder :: "u8 \<Rightarrow> unit \<Rightarrow> int \<times> unit" where
  "raw_decoder byte st = (if byte = 0xC0 then (- 2, ()) else (uint byte, ()))"

text \<open>
  A platform for the concrete inputs, standing for the collaborators, which are not among
  the sources. Its state is whether a write session is open (the spec's glossary: "entered
  by a BEGIN command and exited by an END command") and the content of the registers;
  every handler succeeds (returns 0), but the finalizer outside a write session. The
  theorems hold for every platform; this one instantiates them.
\<close>

record mock_world =
  in_flash :: bool
  reg :: "u32 \<Rightarrow> u32"

definition mock :: "mock_world platform" where
  "mock =
     \<lparr>REG_READ = (\<lambda>a w. (reg w a, w)),
      REG_WRITE = (\<lambda>a v w. w\<lparr>reg := (reg w)(a := v)\<rparr>),
      SPIEraseChip = (\<lambda>w. (0, w)),
      handle_flash_erase = (\<lambda>a l w. (0, w)),
      handle_flash_get_md5sum = (\<lambda>a l w. (0, w)),
      handle_flash_begin = (\<lambda>t a w. (0, w\<lparr>in_flash := True\<rparr>)),
      handle_flash_deflated_begin = (\<lambda>u t a w. (0, w\<lparr>in_flash := True\<rparr>)),
      is_in_flash_mode = (\<lambda>w. (in_flash w, w)),
      get_flash_error = (\<lambda>w. (0, w)),
      handle_flash_end = (\<lambda>w. (if in_flash w then 0 else 0xC6, w\<lparr>in_flash := False\<rparr>)),
      handle_spi_set_params = (\<lambda>ws w. ((0, 0), w)),
      handle_spi_attach = (\<lambda>a b w. (0, w)),
      ets_get_detected_xtal_freq = (\<lambda>w. (40000000, w)),
      ets_delay_us = (\<lambda>n w. w),
      uart_div_modify = (\<lambda>n d w. w),
      handle_flash_read = (\<lambda>a b c d w. w),
      handle_flash_data = (\<lambda>bs n w. w),
      handle_flash_deflated_data = (\<lambda>bs n w. w),
      uart_tx_flush = (\<lambda>n w. w)\<rparr>"

text \<open>Memory holding the bytes \<open>xs\<close>, followed by zeros.\<close>

definition mem_of :: "u8 list \<Rightarrow> nat \<Rightarrow> u8" where
  "mem_of xs i = (if i < length xs then xs ! i else 0)"

text \<open>
  Two states of that platform: no write session, and a write session open. The register
  at 0x3FF00000 holds 0xDEADBEEF (scenario B of the spec).
\<close>

definition idle :: mock_world where
  "idle = \<lparr>in_flash = False, reg = (\<lambda>a. if a = 0x3FF00000 then 0xDEADBEEF else 0)\<rparr>"

definition writing :: mock_world where
  "writing = idle\<lparr>in_flash := True\<rparr>"

text \<open>
  Commands for the concrete inputs: \<^verbatim>\<open>FLASH_BEGIN\<close> of scenario C (4 blocks of 256
  bytes at offset 0x1000), a \<^verbatim>\<open>FLASH_DATA\<close> with a given length word, header
  checksum and data after the 16-byte data header, \<^verbatim>\<open>READ_REG\<close> of the register at
  0x3FF00000, and an end command with \<open>arg0 = 0\<close>.
\<close>

definition flash_begin_cmd :: esp_command_req_t where
  "flash_begin_cmd =
     \<lparr>op = ESP_FLASH_BEGIN, data_len = 16, checksum = 0,
      data_buf = mem_of [0, 4, 0, 0,  4, 0, 0, 0,  0, 1, 0, 0,  0, 0x10, 0, 0]\<rparr>"

definition flash_data_cmd :: "u8 list \<Rightarrow> u8 \<Rightarrow> u8 list \<Rightarrow> esp_command_req_t" where
  "flash_data_cmd len_word cs bytes =
     \<lparr>op = ESP_FLASH_DATA, data_len = word_of_nat (16 + length bytes), checksum = cs,
      data_buf = mem_of (len_word @ [1, 0, 0, 0,  0, 0, 0, 0,  0, 0, 0, 0] @ bytes)\<rparr>"

definition read_reg_cmd :: esp_command_req_t where
  "read_reg_cmd =
     \<lparr>op = ESP_READ_REG, data_len = 4, checksum = 0, data_buf = mem_of [0, 0, 0xF0, 0x3F]\<rparr>"

definition flash_end_cmd :: "esp_command \<Rightarrow> u16 \<Rightarrow> esp_command_req_t" where
  "flash_end_cmd x n = \<lparr>op = x, data_len = n, checksum = 0, data_buf = mem_of [0, 0, 0, 0]\<rparr>"

text \<open>
  From the spec's dispatch table: the required payload length of an op, for the ops that
  have one. It is compared below with what the first switch does.
\<close>

definition required_len :: "esp_command \<Rightarrow> nat option" where
  "required_len x =
     (case x of
        ESP_ERASE_FLASH \<Rightarrow> Some 0
      | ESP_ERASE_REGION \<Rightarrow> Some 8
      | ESP_SET_BAUD \<Rightarrow> Some 8
      | ESP_READ_FLASH \<Rightarrow> Some 16
      | ESP_FLASH_VERIFY_MD5 \<Rightarrow> Some 16
      | ESP_FLASH_BEGIN \<Rightarrow> Some 16
      | ESP_FLASH_DEFLATED_BEGIN \<Rightarrow> Some 16
      | ESP_SPI_SET_PARAMS \<Rightarrow> Some 24
      | ESP_SPI_ATTACH \<Rightarrow> Some 8
      | ESP_WRITE_REG \<Rightarrow> Some 16
      | ESP_READ_REG \<Rightarrow> Some 4
      | _ \<Rightarrow> None)"

text \<open>
  The ops whose case of the first switch assigns the result of \<^verbatim>\<open>verify_data_len\<close> to
  \<^verbatim>\<open>error\<close> as it is; the other ops with a required length pass it through
  \<^verbatim>\<open>||\<close>.
\<close>

definition length_error_kept :: "esp_command \<Rightarrow> bool" where
  "length_error_kept x = (x = ESP_SET_BAUD \<or> x = ESP_READ_FLASH \<or> x = ESP_WRITE_REG \<or> x = ESP_READ_REG)"

text \<open>
  From the spec's words: the checksum "computed over the remaining payload", everything
  after the 4-byte length word. It is compared below with the checksum the first switch
  computes, which starts after the 16-byte data header.
\<close>

definition checksum_after_length_word :: "esp_command_req_t \<Rightarrow> u8" where
  "checksum_after_length_word c =
     calculate_checksum (\<lambda>i. data_buf c (4 + i)) (uint (data_len c) - 4)"

section \<open>Theorems\<close>

subsection \<open>The checksum\<close>

lemma fold_xor_acc:
  "fold (\<lambda>i res. res XOR f i) is (a :: u8) = a XOR fold (\<lambda>i res. res XOR f i) is 0"
proof (induction "is" arbitrary: a)
  case Nil
  show ?case by simp
next
  case (Cons i "is")
  have 1: "fold (\<lambda>i res. res XOR f i) is (a XOR f i) = (a XOR f i) XOR fold (\<lambda>i res. res XOR f i) is 0"
    by (rule Cons.IH)
  have 2: "fold (\<lambda>i res. res XOR f i) is (f i) = f i XOR fold (\<lambda>i res. res XOR f i) is 0"
    by (rule Cons.IH)
  show ?case
    by (simp add: 1 2 xor.assoc)
qed

lemma calculate_checksum_list:
  "calculate_checksum ((!) xs) (int (length xs)) = fold (\<lambda>b res. res XOR b) xs 0xef"
proof -
  have "fold (\<lambda>i res. res XOR xs ! i) [0..<length xs] (0xef :: u8)
        = fold (\<lambda>b res. res XOR b) (map ((!) xs) [0..<length xs]) 0xef"
    by (simp add: fold_map comp_def)
  then show ?thesis
    by (simp add: calculate_checksum_def map_nth)
qed

lemma xor_swap_out: "(a XOR v) XOR F = ((a XOR x) XOR F) XOR (x XOR (v::u8))"
  by (auto simp: bit_eq_iff bit_xor_iff)

lemma xor_same_imp_zero: "(c::u8) XOR d = c \<Longrightarrow> d = 0"
  by (metis bit.xor_left_self word_bw_same(3))

lemma xor_zero_imp_eq: "(c::u8) XOR d = 0 \<Longrightarrow> c = d"
  by (metis bit.xor_left_self xor.comm_neutral)

lemma fold_xor_update:
  "i < length xs \<Longrightarrow>
   fold (\<lambda>b res. res XOR b) (xs[i := v]) (a :: u8)
     = fold (\<lambda>b res. res XOR b) xs a XOR (xs ! i XOR v)"
proof (induction xs arbitrary: i a)
  case Nil
  then show ?case by simp
next
  case (Cons x xs)
  show ?case
  proof (cases i)
    case 0
    let ?F = "fold (\<lambda>b res. res XOR b) xs 0"
    have l: "fold (\<lambda>b res. res XOR b) ((x # xs)[i := v]) a = (a XOR v) XOR ?F"
      using 0 fold_xor_acc [of "\<lambda>b. b" xs "a XOR v"] by simp
    have r: "fold (\<lambda>b res. res XOR b) (x # xs) a = (a XOR x) XOR ?F"
      using fold_xor_acc [of "\<lambda>b. b" xs "a XOR x"] by simp
    have n: "(x # xs) ! i = x"
      using 0 by simp
    show ?thesis
      unfolding l r n by (rule xor_swap_out)
  next
    case (Suc j)
    with Cons show ?thesis by simp
  qed
qed

text \<open>
  Claim C6. The checksum of a byte sequence is the XOR of its bytes folded from the seed
  0xEF; equal sequences have equal checksums; and replacing the byte at one position by
  a different byte changes the checksum.
\<close>

theorem calculate_checksum_single_byte:
  "calculate_checksum ((!) xs) (int (length xs)) = fold (\<lambda>b res. res XOR b) xs 0xef
   \<and> (xs = ys \<longrightarrow>
        calculate_checksum ((!) xs) (int (length xs)) = calculate_checksum ((!) ys) (int (length ys)))
   \<and> (i < length xs \<and> v \<noteq> xs ! i \<longrightarrow>
        calculate_checksum ((!) (xs[i := v])) (int (length (xs[i := v])))
          \<noteq> calculate_checksum ((!) xs) (int (length xs)))"
proof (intro conjI impI)
  show "calculate_checksum ((!) xs) (int (length xs)) = fold (\<lambda>b res. res XOR b) xs 0xef"
    by (rule calculate_checksum_list)
next
  assume "xs = ys"
  then show "calculate_checksum ((!) xs) (int (length xs)) = calculate_checksum ((!) ys) (int (length ys))"
    by simp
next
  assume a: "i < length xs \<and> v \<noteq> xs ! i"
  let ?c = "fold (\<lambda>b res. res XOR b) xs (0xef :: u8)"
  have 1: "calculate_checksum ((!) (xs[i := v])) (int (length (xs[i := v]))) = ?c XOR (xs ! i XOR v)"
    using a by (simp only: calculate_checksum_list fold_xor_update)
  have 2: "calculate_checksum ((!) xs) (int (length xs)) = ?c"
    by (rule calculate_checksum_list)
  have "?c XOR (xs ! i XOR v) \<noteq> ?c"
  proof
    assume "?c XOR (xs ! i XOR v) = ?c"
    then have "xs ! i XOR v = 0"
      by (rule xor_same_imp_zero)
    then have "xs ! i = v"
      by (rule xor_zero_imp_eq)
    with a show False by simp
  qed
  with 1 2 show "calculate_checksum ((!) (xs[i := v])) (int (length (xs[i := v])))
          \<noteq> calculate_checksum ((!) xs) (int (length xs))"
    by simp
qed

theorem calculate_checksum_single_byte_witness:
  "calculate_checksum ((!) [1, 2, 4]) (int (length [1, 2, 4 :: u8])) = 0xE8
   \<and> (1 :: nat) < length [1, 2, 4 :: u8] \<and> (7 :: u8) \<noteq> [1, 2, 4] ! 1
   \<and> calculate_checksum ((!) ([1, 2, 4][1 := 7])) (int (length ([1, 2, 4 :: u8][1 := 7])))
        \<noteq> calculate_checksum ((!) [1, 2, 4]) (int (length [1, 2, 4 :: u8]))"
proof -
  have p: "(1 :: nat) < length [1, 2, 4 :: u8] \<and> (7 :: u8) \<noteq> [1, 2, 4] ! 1"
    by simp
  note t = calculate_checksum_single_byte [of "[1, 2, 4]" "[1, 2, 4]" 1 7]
  from t have a: "calculate_checksum ((!) [1, 2, 4]) (int (length [1, 2, 4 :: u8])) = 0xE8"
    by simp
  from t p have b:
    "calculate_checksum ((!) ([1, 2, 4][1 := 7])) (int (length ([1, 2, 4 :: u8][1 := 7])))
        \<noteq> calculate_checksum ((!) [1, 2, 4]) (int (length [1, 2, 4 :: u8]))"
    by blast
  show ?thesis
    using a b p by blast
qed

subsection \<open>The receive buffers\<close>

lemma not_BUF_A: "(b \<noteq> BUF_A) = (b = BUF_B)"
  by (cases b) simp_all

text \<open>The buffers are well formed when the interrupt handler is attached.\<close>

lemma ub_ok_init: "ub_ok h (ub_init h st0)"
  by (simp add: ub_ok_def ub_init_def)

lemma store_ok:
  "ub_ok h ub \<Longrightarrow>
   \<exists>ub1. store (unat (read ub)) v ub = Some ub1 \<and> ub_ok h ub1 \<and> read ub1 = read ub
     \<and> reading_buf ub1 = reading_buf ub \<and> command ub1 = command ub"
  by (cases "reading_buf ub") (auto simp: store_def ub_ok_def)

lemma uart_isr_receive_ok:
  assumes "ub_ok h ub"
  shows "\<exists>ub'. uart_isr_receive h R byte ub = Some ub' \<and> ub_ok h ub'"
proof -
  obtain r st where R: "R byte (state ub) = (r, st)"
    by (cases "R byte (state ub)")
  have ok0: "ub_ok h (ub\<lparr>state := st\<rparr>)"
    using assms by (simp add: ub_ok_def)
  show ?thesis
  proof (cases "0 \<le> r")
    case False
    then show ?thesis
      using R ok0 by (auto simp: uart_isr_receive_def ub_ok_def)
  next
    case True
    obtain ub1 where s: "store (unat (read ub)) (word_of_int r) (ub\<lparr>state := st\<rparr>) = Some ub1"
      and ok1: "ub_ok h ub1" and rd: "read ub1 = read ub"
      using store_ok [OF ok0, of "word_of_int r"] by auto
    show ?thesis
    proof (cases "unat (read ub + 1) = MAX_WRITE_BLOCK h + 64")
      case full: True
      then show ?thesis
        using R True s ok1 rd by (auto simp: uart_isr_receive_def ub_ok_def Let_def)
    next
      case notfull: False
      have "unat (read ub + 1) \<le> unat (read ub) + 1"
        by (simp add: unat_word_ariths)
      then have lt: "unat (read ub + 1) < MAX_WRITE_BLOCK h + 64"
        using notfull assms by (simp add: ub_ok_def)
      show ?thesis
        using R True s ok1 rd notfull lt by (auto simp: uart_isr_receive_def ub_ok_def Let_def)
    qed
  qed
qed


lemma uart_isr_ok:
  "ub_ok h ub \<Longrightarrow> \<exists>ub'. uart_isr h R fifo ub = Some ub' \<and> ub_ok h ub'"
proof (induction fifo arbitrary: ub)
  case Nil
  then show ?case by simp
next
  case (Cons byte fifo)
  obtain ub1 where 1: "uart_isr_receive h R byte ub = Some ub1" and ok1: "ub_ok h ub1"
    using uart_isr_receive_ok [OF Cons.prems] by blast
  show ?case
    using Cons.IH [OF ok1] 1 by simp
qed

lemma uart_isr_receive_stores:
  assumes "ub_ok h ub" and "R byte (state ub) = (r, st)" and "0 \<le> r"
  shows "\<exists>ub'. uart_isr_receive h R byte ub = Some ub'
           \<and> unat (read ub) < length (deref (reading_buf ub) ub')
           \<and> deref (reading_buf ub) ub' ! unat (read ub) = word_of_int r"
  using assms
  by (cases "reading_buf ub")
     (auto simp: uart_isr_receive_def store_def ub_ok_def deref_def Let_def)

lemma uart_isr_receive_full:
  assumes "ub_ok h ub" and "R byte (state ub) = (r, st)" and "0 \<le> r"
    and "MAX_WRITE_BLOCK h + 64 < 2 ^ 16" and "unat (read ub) + 1 = MAX_WRITE_BLOCK h + 64"
  shows "\<exists>ub'. uart_isr_receive h R byte ub = Some ub'
           \<and> command ub' = Some (reading_buf ub) \<and> reading_buf ub' \<noteq> reading_buf ub
           \<and> read ub' = 0"
proof -
  have "unat (read ub + 1) = unat (read ub) + 1"
    using assms(4,5) by (simp add: unat_word_ariths)
  then have full: "unat (read ub + 1) = MAX_WRITE_BLOCK h + 64"
    using assms(5) by simp
  show ?thesis
    using assms(1,2,3) full
    by (cases "reading_buf ub")
       (auto simp: uart_isr_receive_def store_def ub_ok_def Let_def)
qed

text \<open>
  Claim C8. From well-formed buffers the handler never stores outside the active buffer,
  whatever bytes arrive: every call returns, and leaves the buffers well formed, so the
  interrupt routine runs through any sequence of bytes; a decoded byte is stored at the
  offset \<open>read\<close>, which is less than the buffer size \<^verbatim>\<open>MAX_WRITE_BLOCK+64\<close>; and when
  that store fills the buffer (the size fits the 16-bit count) the handler completes the
  frame: it publishes the buffer, swaps to the other one and resets the offset to 0.
\<close>

theorem uart_isr_in_bounds:
  assumes "ub_ok h ub"
  shows "(\<exists>ub'. uart_isr h R fifo ub = Some ub' \<and> ub_ok h ub')
    \<and> (0 \<le> fst (R byte (state ub)) \<longrightarrow>
         (\<exists>ub'. uart_isr_receive h R byte ub = Some ub'
            \<and> unat (read ub) < MAX_WRITE_BLOCK h + 64
            \<and> length (deref (reading_buf ub) ub') = MAX_WRITE_BLOCK h + 64
            \<and> deref (reading_buf ub) ub' ! unat (read ub) = word_of_int (fst (R byte (state ub)))))
    \<and> (0 \<le> fst (R byte (state ub)) \<and> MAX_WRITE_BLOCK h + 64 < 2 ^ 16
          \<and> unat (read ub) + 1 = MAX_WRITE_BLOCK h + 64 \<longrightarrow>
         (\<exists>ub'. uart_isr_receive h R byte ub = Some ub'
            \<and> command ub' = Some (reading_buf ub) \<and> reading_buf ub' \<noteq> reading_buf ub
            \<and> read ub' = 0))"
proof (intro conjI impI)
  show "\<exists>ub'. uart_isr h R fifo ub = Some ub' \<and> ub_ok h ub'"
    using assms by (rule uart_isr_ok)
next
  assume r: "0 \<le> fst (R byte (state ub))"
  obtain ub' where 1: "uart_isr_receive h R byte ub = Some ub'"
    and 2: "deref (reading_buf ub) ub' ! unat (read ub) = word_of_int (fst (R byte (state ub)))"
    using uart_isr_receive_stores [OF assms _ r, of R byte "snd (R byte (state ub))"] by auto
  obtain ub'' where 3: "uart_isr_receive h R byte ub = Some ub''" and 4: "ub_ok h ub''"
    using uart_isr_receive_ok [OF assms] by blast
  have "length (deref (reading_buf ub) ub') = MAX_WRITE_BLOCK h + 64"
    using 1 3 4 by (cases "reading_buf ub") (auto simp: ub_ok_def deref_def)
  then show "\<exists>ub'. uart_isr_receive h R byte ub = Some ub'
            \<and> unat (read ub) < MAX_WRITE_BLOCK h + 64
            \<and> length (deref (reading_buf ub) ub') = MAX_WRITE_BLOCK h + 64
            \<and> deref (reading_buf ub) ub' ! unat (read ub) = word_of_int (fst (R byte (state ub)))"
    using 1 2 assms by (auto simp: ub_ok_def)
next
  assume a: "0 \<le> fst (R byte (state ub)) \<and> MAX_WRITE_BLOCK h + 64 < 2 ^ 16
          \<and> unat (read ub) + 1 = MAX_WRITE_BLOCK h + 64"
  then show "\<exists>ub'. uart_isr_receive h R byte ub = Some ub'
            \<and> command ub' = Some (reading_buf ub) \<and> reading_buf ub' \<noteq> reading_buf ub
            \<and> read ub' = 0"
    using uart_isr_receive_full [OF assms, of R byte "fst (R byte (state ub))" "snd (R byte (state ub))"]
    by simp
qed

theorem uart_isr_in_bounds_witness:
  "ub_ok esp32_header ((ub_init esp32_header ())\<lparr>read := 0x403F\<rparr>)
   \<and> 0 \<le> fst (raw_decoder 0x41 ())
   \<and> MAX_WRITE_BLOCK esp32_header + 64 < 2 ^ 16
   \<and> unat (0x403F :: u16) + 1 = MAX_WRITE_BLOCK esp32_header + 64
   \<and> (\<exists>ub'. uart_isr esp32_header raw_decoder [0x41, 0xC0, 0x42]
              ((ub_init esp32_header ())\<lparr>read := 0x403F\<rparr>) = Some ub' \<and> ub_ok esp32_header ub')
   \<and> (\<exists>ub'. uart_isr_receive esp32_header raw_decoder 0x41
              ((ub_init esp32_header ())\<lparr>read := 0x403F\<rparr>) = Some ub'
            \<and> deref BUF_A ub' ! 0x403F = 0x41
            \<and> command ub' = Some BUF_A \<and> reading_buf ub' = BUF_B \<and> read ub' = 0)"
proof -
  let ?ub = "(ub_init esp32_header ())\<lparr>read := 0x403F\<rparr>"
  have ok: "ub_ok esp32_header ?ub"
    by (simp add: ub_ok_def ub_init_def esp32_header_def)
  have r: "0 \<le> fst (raw_decoder 0x41 (state ?ub))"
    by (simp add: raw_decoder_def)
  have m: "MAX_WRITE_BLOCK esp32_header + 64 < 2 ^ 16"
    by (simp add: esp32_header_def)
  have f: "unat (read ?ub) + 1 = MAX_WRITE_BLOCK esp32_header + 64"
    by (simp add: esp32_header_def)
  have rb: "reading_buf ?ub = BUF_A" "read ?ub = 0x403F"
    by (simp_all add: ub_init_def)
  have v: "fst (raw_decoder 0x41 (state ?ub)) = 0x41"
    by (simp add: raw_decoder_def)
  note t = uart_isr_in_bounds [OF ok, of raw_decoder "[0x41, 0xC0, 0x42]" "0x41"]
  from t r m f rb v show ?thesis
    using ok by (auto simp: not_BUF_A)
qed

lemma uart_isr_receive_inv:
  assumes "command ub \<noteq> Some (reading_buf ub)"
    and "uart_isr_receive h R byte ub = Some ub'"
  shows "command ub' \<noteq> Some (reading_buf ub')"
  using assms
  by (cases "reading_buf ub")
     (auto simp: uart_isr_receive_def store_def Let_def
           split: prod.splits if_splits option.splits)

text \<open>The invariant holds after any sequence of bytes, from the initial buffers on.\<close>

lemma uart_isr_inv:
  "command ub \<noteq> Some (reading_buf ub) \<Longrightarrow> uart_isr h R fifo ub = Some ub' \<Longrightarrow>
   command ub' \<noteq> Some (reading_buf ub')"
proof (induction fifo arbitrary: ub)
  case Nil
  then show ?case by simp
next
  case (Cons byte fifo)
  from Cons.prems(2) obtain ub1 where 1: "uart_isr_receive h R byte ub = Some ub1"
    and 2: "uart_isr h R fifo ub1 = Some ub'"
    by (auto split: option.splits)
  have "command ub1 \<noteq> Some (reading_buf ub1)"
    using Cons.prems(1) 1 by (rule uart_isr_receive_inv)
  then show ?case
    using 2 by (rule Cons.IH)
qed

lemma uart_isr_init_inv:
  "uart_isr h R fifo (ub_init h st0) = Some ub' \<Longrightarrow> command ub' \<noteq> Some (reading_buf ub')"
  by (rule uart_isr_inv [of "ub_init h st0"]) (simp_all add: ub_init_def)

text \<open>
  Claim C9. The handler preserves the invariant that the ready pointer \<open>command\<close> and
  the active buffer \<open>reading_buf\<close> are not the same buffer: the buffer published as
  ready is not written by the call, and a call either leaves both pointers as they are
  or completes a frame, setting \<open>command\<close> to the buffer just filled and
  \<open>reading_buf\<close> to the other one.
\<close>

theorem uart_isr_receive_ready_not_active:
  assumes "command ub \<noteq> Some (reading_buf ub)"
    and "uart_isr_receive h R byte ub = Some ub'"
  shows "command ub' \<noteq> Some (reading_buf ub')
    \<and> (command ub = Some BUF_A \<longrightarrow> buf_a ub' = buf_a ub)
    \<and> (command ub = Some BUF_B \<longrightarrow> buf_b ub' = buf_b ub)
    \<and> ((reading_buf ub' = reading_buf ub \<and> command ub' = command ub)
        \<or> (command ub' = Some (reading_buf ub) \<and> reading_buf ub' \<noteq> reading_buf ub
            \<and> read ub' = 0))"
  using assms
  by (cases "reading_buf ub")
     (auto simp: uart_isr_receive_def store_def Let_def
           split: prod.splits if_splits option.splits)

theorem uart_isr_receive_ready_not_active_witness:
  "command (ub_init esp32_header ()) \<noteq> Some (reading_buf (ub_init esp32_header ()))
   \<and> uart_isr_receive esp32_header raw_decoder 0xC0 (ub_init esp32_header ())
       = Some ((ub_init esp32_header ())\<lparr>command := Some BUF_A, reading_buf := BUF_B\<rparr>)
   \<and> command ((ub_init esp32_header ())\<lparr>command := Some BUF_A, reading_buf := BUF_B\<rparr>)
       \<noteq> Some (reading_buf ((ub_init esp32_header ())\<lparr>command := Some BUF_A, reading_buf := BUF_B\<rparr>))"
proof -
  have 1: "command (ub_init esp32_header ()) \<noteq> Some (reading_buf (ub_init esp32_header ()))"
    by (simp add: ub_init_def)
  have 2: "uart_isr_receive esp32_header raw_decoder 0xC0 (ub_init esp32_header ())
       = Some ((ub_init esp32_header ())\<lparr>command := Some BUF_A, reading_buf := BUF_B\<rparr>)"
    by (simp add: uart_isr_receive_def raw_decoder_def esp32_header_def ub_init_def)
  show ?thesis
    using uart_isr_receive_ready_not_active [OF 1 2] 1 2 by simp
qed

subsection \<open>The command loop\<close>

lemmas iter_defs =
  cmd_iter_def first_stage_def second_stage_def flash_data_stage_def
  call_def call_void_def emit_def c_or_def verify_data_len_def Let_def

lemmas eval_defs =
  iter_defs esp32_header_def mock_def mem_of_def data_words_def idle_def
  calculate_checksum_def payload_def ESP_OK_def flash_begin_cmd_def flash_data_cmd_def
  read_reg_cmd_def flash_end_cmd_def writing_def upt_rec

lemma uint_eq_numeral_iff: "(uint (x :: u16) = int n) = (unat x = n)"
  by (simp only: uint_nat of_nat_eq_iff)

text \<open>
  Claim C5. A command whose \<open>data_len\<close> exceeds \<^verbatim>\<open>MAX_WRITE_BLOCK+16\<close> is answered with
  the response header and the fixed pair \<^verbatim>\<open>ESP_BAD_DATA_LEN\<close>, 0xEE, whatever its op:
  the trace of the pass holds these five sends and no call on the platform, the state of
  the platform is unchanged, and the loop goes on.
\<close>

theorem cmd_iter_oversize:
  assumes "MAX_WRITE_BLOCK h + 16 < unat (data_len c)"
  shows "cmd_iter h P c (w, tr) =
    (Next_command,
     (w, tr @ [Ev_SLIP_send_frame_delimiter,
               Ev_SLIP_send_frame_data_buf \<lparr>resp = 1, op_ret = op c, len_ret = 0, value_ret = 0\<rparr>,
               Ev_SLIP_send_frame_data (ESP_BAD_DATA_LEN h),
               Ev_SLIP_send_frame_data 0xEE,
               Ev_SLIP_send_frame_delimiter]))"
proof -
  have "data_len c \<noteq> 4"
    using assms by auto
  then show ?thesis
    using assms by (simp add: cmd_iter_def emit_def)
qed

theorem cmd_iter_oversize_witness:
  "MAX_WRITE_BLOCK esp32_header + 16 < unat (data_len (flash_end_cmd ESP_FLASH_END 0x4011))
   \<and> cmd_iter esp32_header mock (flash_end_cmd ESP_FLASH_END 0x4011) (writing, []) =
       (Next_command,
        (writing, [Ev_SLIP_send_frame_delimiter,
                Ev_SLIP_send_frame_data_buf
                  \<lparr>resp = 1, op_ret = ESP_FLASH_END, len_ret = 0, value_ret = 0\<rparr>,
                Ev_SLIP_send_frame_data 0xC0,
                Ev_SLIP_send_frame_data 0xEE,
                Ev_SLIP_send_frame_delimiter]))"
proof -
  have 1: "MAX_WRITE_BLOCK esp32_header + 16 < unat (data_len (flash_end_cmd ESP_FLASH_END 0x4011))"
    by (simp add: esp32_header_def flash_end_cmd_def)
  show ?thesis
    using cmd_iter_oversize [OF 1, of mock writing "[]"] 1
    by (simp add: esp32_header_def flash_end_cmd_def)
qed

text \<open>
  Claim C7. For \<^verbatim>\<open>READ_REG\<close> with a payload of 4 bytes the register at
  \<open>data_words c 0\<close> is read first, its value is the \<open>value\<close> field of the response
  header that is sent next, and the error sent after it is \<^verbatim>\<open>ESP_OK\<close>, that is 0.
\<close>

theorem cmd_iter_read_reg:
  assumes "op c = ESP_READ_REG" and "data_len c = 4"
    and "REG_READ P (data_words c 0) w = (v, w')"
  shows "cmd_iter h P c (w, tr) =
    (Next_command,
     (w', tr @ [Ev_REG_READ (data_words c 0),
                Ev_SLIP_send_frame_delimiter,
                Ev_SLIP_send_frame_data_buf
                  \<lparr>resp = 1, op_ret = ESP_READ_REG, len_ret = 0, value_ret = v\<rparr>,
                Ev_SLIP_send_frame_data ESP_OK,
                Ev_SLIP_send_frame_data 0,
                Ev_SLIP_send_frame_delimiter]))"
  using assms by (simp add: iter_defs)

theorem cmd_iter_read_reg_witness:
  "op read_reg_cmd = ESP_READ_REG \<and> data_len read_reg_cmd = 4
   \<and> REG_READ mock (data_words read_reg_cmd 0) idle = (0xDEADBEEF, idle)
   \<and> cmd_iter esp32_header mock read_reg_cmd (idle, []) =
       (Next_command,
        (idle, [Ev_REG_READ 0x3FF00000,
                Ev_SLIP_send_frame_delimiter,
                Ev_SLIP_send_frame_data_buf
                  \<lparr>resp = 1, op_ret = ESP_READ_REG, len_ret = 0, value_ret = 0xDEADBEEF\<rparr>,
                Ev_SLIP_send_frame_data 0,
                Ev_SLIP_send_frame_data 0,
                Ev_SLIP_send_frame_delimiter]))"
proof -
  have a: "data_words read_reg_cmd 0 = 0x3FF00000"
    by (simp add: read_reg_cmd_def data_words_def mem_of_def)
  have 1: "op read_reg_cmd = ESP_READ_REG" and 2: "data_len read_reg_cmd = 4"
    by (simp_all add: read_reg_cmd_def)
  have 3: "REG_READ mock (data_words read_reg_cmd 0) idle = (0xDEADBEEF, idle)"
    by (simp add: a mock_def idle_def)
  show ?thesis
    using cmd_iter_read_reg [OF 1 2 3, of esp32_header "[]"] 1 2 3
    by (simp add: a ESP_OK_def)
qed

text \<open>
  Claim C10. For \<^verbatim>\<open>FLASH_END\<close> and \<^verbatim>\<open>FLASH_DEFLATED_END\<close> with \<open>data_len\<close> within
  the maximum, whatever \<open>data_len\<close> is, the finalizer \<^verbatim>\<open>handle_flash_end\<close> is called
  right after the response header, and the error sent is the finalizer's result \<open>e\<close>:
  the loop checks no length and makes no \<^verbatim>\<open>ESP_BAD_DATA_LEN\<close> of its own. What
  follows the response is the reset, for \<^verbatim>\<open>FLASH_END\<close> with \<open>e\<close> = \<^verbatim>\<open>ESP_OK\<close> and
  first payload word 0, and nothing otherwise.
\<close>

theorem cmd_iter_flash_end_any_length:
  assumes "op c = ESP_FLASH_END \<or> op c = ESP_FLASH_DEFLATED_END"
    and "unat (data_len c) \<le> MAX_WRITE_BLOCK h + 16"
    and "handle_flash_end P w = (e, w')"
  shows "cmd_iter h P c (w, tr) =
    (if op c = ESP_FLASH_END \<and> e = ESP_OK \<and> data_words c 0 = 0 then
       (Reset,
        (if ESP32 h then uart_tx_flush P 0 w' else ets_delay_us P 10000 w',
         tr @ [Ev_SLIP_send_frame_delimiter,
               Ev_SLIP_send_frame_data_buf
                 \<lparr>resp = 1, op_ret = op c, len_ret = 0, value_ret = 0\<rparr>,
               Ev_handle_flash_end,
               Ev_SLIP_send_frame_data e,
               Ev_SLIP_send_frame_data 0,
               Ev_SLIP_send_frame_delimiter,
               if ESP32 h then Ev_uart_tx_flush 0 else Ev_ets_delay_us 10000,
               Ev_software_reset]))
     else
       (Next_command,
        (w', tr @ [Ev_SLIP_send_frame_delimiter,
                   Ev_SLIP_send_frame_data_buf
                     \<lparr>resp = 1, op_ret = op c, len_ret = 0, value_ret = 0\<rparr>,
                   Ev_handle_flash_end,
                   Ev_SLIP_send_frame_data e,
                   Ev_SLIP_send_frame_data 0,
                   Ev_SLIP_send_frame_delimiter])))"
  using assms by (auto simp: iter_defs)

theorem cmd_iter_flash_end_any_length_witness:
  "(op (flash_end_cmd ESP_FLASH_DEFLATED_END 0) = ESP_FLASH_END
      \<or> op (flash_end_cmd ESP_FLASH_DEFLATED_END 0) = ESP_FLASH_DEFLATED_END)
   \<and> unat (data_len (flash_end_cmd ESP_FLASH_DEFLATED_END 0)) \<le> MAX_WRITE_BLOCK esp32_header + 16
   \<and> handle_flash_end mock writing = (0, idle)
   \<and> cmd_iter esp32_header mock (flash_end_cmd ESP_FLASH_DEFLATED_END 0) (writing, []) =
       (Next_command,
        (idle, [Ev_SLIP_send_frame_delimiter,
                Ev_SLIP_send_frame_data_buf
                  \<lparr>resp = 1, op_ret = ESP_FLASH_DEFLATED_END, len_ret = 0, value_ret = 0\<rparr>,
                Ev_handle_flash_end,
                Ev_SLIP_send_frame_data 0,
                Ev_SLIP_send_frame_data 0,
                Ev_SLIP_send_frame_delimiter]))"
proof -
  have 1: "op (flash_end_cmd ESP_FLASH_DEFLATED_END 0) = ESP_FLASH_END
      \<or> op (flash_end_cmd ESP_FLASH_DEFLATED_END 0) = ESP_FLASH_DEFLATED_END"
    by (simp add: flash_end_cmd_def)
  have 2: "unat (data_len (flash_end_cmd ESP_FLASH_DEFLATED_END 0)) \<le> MAX_WRITE_BLOCK esp32_header + 16"
    by (simp add: flash_end_cmd_def)
  have 3: "handle_flash_end mock writing = (0, idle)"
    by (simp add: mock_def writing_def idle_def)
  have 4: "op (flash_end_cmd ESP_FLASH_DEFLATED_END 0) = ESP_FLASH_DEFLATED_END"
    by (simp add: flash_end_cmd_def)
  show ?thesis
    using cmd_iter_flash_end_any_length [OF 1 2 3, of "[]"] 1 2 3
    by (simp add: 4)
qed

text \<open>
  When a pass ends in the reset: the op is \<^verbatim>\<open>ESP_FLASH_END\<close>, the length is within the
  maximum, the finalizer returns \<^verbatim>\<open>ESP_OK\<close> and the first payload word is 0. No other
  command resets, \<^verbatim>\<open>ESP_FLASH_DEFLATED_END\<close> included: the second switch has no case
  for it.
\<close>

lemma cmd_iter_reset_iff:
  "fst (cmd_iter h P c (w, tr)) = Reset \<longleftrightarrow>
     op c = ESP_FLASH_END \<and> unat (data_len c) \<le> MAX_WRITE_BLOCK h + 16
     \<and> fst (handle_flash_end P w) = ESP_OK \<and> data_words c 0 = 0"
  by (cases "op c")
     (auto simp: iter_defs baud_rate_to_divider_def split: prod.splits option.splits if_splits)

text \<open>
  So the loop, on any list of commands, resets only at an \<^verbatim>\<open>ESP_FLASH_END\<close> command
  with first payload word 0.
\<close>

lemma cmd_loop_reset_only_flash_end:
  "fst (cmd_loop h P cs s) = Reset \<Longrightarrow>
   \<exists>c \<in> set cs. op c = ESP_FLASH_END \<and> data_words c 0 = 0
      \<and> unat (data_len c) \<le> MAX_WRITE_BLOCK h + 16"
proof (induction cs arbitrary: s)
  case Nil
  then show ?case by simp
next
  case (Cons c cs)
  obtain w tr where s: "s = (w, tr)"
    by (cases s)
  obtain st s' where it: "cmd_iter h P c s = (st, s')"
    by (cases "cmd_iter h P c s")
  show ?case
  proof (cases st)
    case Next_command
    then have "fst (cmd_loop h P cs s') = Reset"
      using Cons.prems it by simp
    then show ?thesis
      using Cons.IH by auto
  next
    case Reset
    then have "fst (cmd_iter h P c (w, tr)) = Reset"
      using it s by simp
    then show ?thesis
      by (simp add: cmd_iter_reset_iff)
  next
    case Division_by_zero
    then show ?thesis
      using Cons.prems it by simp
  qed
qed

text \<open>
  \<^verbatim>\<open>FLASH_END\<close> with \<open>arg0 = 0\<close> in a write session: the response is sent, the output
  is flushed, the chip is reset, and the command that follows is not processed.
\<close>

lemma flash_end_resets:
  "fst (cmd_loop esp32_header mock [flash_end_cmd ESP_FLASH_END 4, read_reg_cmd] (writing, []))
     = Reset
   \<and> snd (snd (cmd_loop esp32_header mock [flash_end_cmd ESP_FLASH_END 4, read_reg_cmd]
                 (writing, [])))
     = [Ev_SLIP_send_frame_delimiter,
        Ev_SLIP_send_frame_data_buf
          \<lparr>resp = 1, op_ret = ESP_FLASH_END, len_ret = 0, value_ret = 0\<rparr>,
        Ev_handle_flash_end,
        Ev_SLIP_send_frame_data 0,
        Ev_SLIP_send_frame_data 0,
        Ev_SLIP_send_frame_delimiter,
        Ev_uart_tx_flush 0,
        Ev_software_reset]"
  by (simp add: eval_defs)

text \<open>
  Claim C1, at \<^verbatim>\<open>FLASH_DEFLATED_END\<close> with \<open>arg0 = 0\<close> in a write session, where the
  finalizer succeeds: the loop sends the response with error 0, does not reset, and goes
  on to process the \<^verbatim>\<open>READ_REG\<close> command that follows.
\<close>

theorem flash_deflated_end_continues:
  "fst (cmd_loop esp32_header mock [flash_end_cmd ESP_FLASH_DEFLATED_END 4, read_reg_cmd] (writing, []))
     = Next_command
   \<and> snd (snd (cmd_loop esp32_header mock [flash_end_cmd ESP_FLASH_DEFLATED_END 4, read_reg_cmd]
                 (writing, [])))
     = [Ev_SLIP_send_frame_delimiter,
        Ev_SLIP_send_frame_data_buf
          \<lparr>resp = 1, op_ret = ESP_FLASH_DEFLATED_END, len_ret = 0, value_ret = 0\<rparr>,
        Ev_handle_flash_end,
        Ev_SLIP_send_frame_data 0,
        Ev_SLIP_send_frame_data 0,
        Ev_SLIP_send_frame_delimiter,
        Ev_REG_READ 0x3FF00000,
        Ev_SLIP_send_frame_delimiter,
        Ev_SLIP_send_frame_data_buf
          \<lparr>resp = 1, op_ret = ESP_READ_REG, len_ret = 0, value_ret = 0xDEADBEEF\<rparr>,
        Ev_SLIP_send_frame_data 0,
        Ev_SLIP_send_frame_data 0,
        Ev_SLIP_send_frame_delimiter]"
  by (simp add: eval_defs)

text \<open>
  What a command with a required length and another \<open>data_len\<close> (within the maximum)
  gets, for every header whose \<^verbatim>\<open>ESP_BAD_DATA_LEN\<close> is not \<^verbatim>\<open>ESP_OK\<close>: no call on the
  platform, so no pre-action and no post-action, and as error \<^verbatim>\<open>ESP_BAD_DATA_LEN\<close> for
  \<^verbatim>\<open>SET_BAUD\<close>, \<^verbatim>\<open>READ_FLASH\<close>, \<^verbatim>\<open>WRITE_REG\<close> and \<^verbatim>\<open>READ_REG\<close>, but the
  truth value 1 of \<^verbatim>\<open>||\<close> for the seven other ops.
\<close>

lemma cmd_iter_wrong_length:
  assumes "required_len (op c) = Some n" and "unat (data_len c) \<noteq> n"
    and "unat (data_len c) \<le> MAX_WRITE_BLOCK h + 16"
    and "ESP_BAD_DATA_LEN h \<noteq> ESP_OK"
  shows "cmd_iter h P c (w, tr) =
    (Next_command,
     (w, tr @ [Ev_SLIP_send_frame_delimiter,
               Ev_SLIP_send_frame_data_buf \<lparr>resp = 1, op_ret = op c, len_ret = 0, value_ret = 0\<rparr>,
               Ev_SLIP_send_frame_data (if length_error_kept (op c) then ESP_BAD_DATA_LEN h else 1),
               Ev_SLIP_send_frame_data 0,
               Ev_SLIP_send_frame_delimiter]))"
proof -
  have u: "uint (data_len c) \<noteq> int n"
    using assms(2) by (simp add: uint_eq_numeral_iff)
  have r4: "op c = ESP_READ_REG \<Longrightarrow> data_len c \<noteq> 4"
    using assms(1,2) by (auto simp: required_len_def)
  show ?thesis
    using assms(1,3,4) u r4
    by (cases "op c")
       (simp_all add: iter_defs required_len_def length_error_kept_def ESP_OK_def)
qed

text \<open>
  Claim C4, at \<^verbatim>\<open>ERASE_FLASH\<close> with \<open>data_len = 1\<close> instead of 0: the chip is not
  erased, and the error sent is 1, where \<^verbatim>\<open>ESP_BAD_DATA_LEN\<close> is 0xC0.
\<close>

theorem erase_flash_wrong_length_reports_1:
  "cmd_iter esp32_header mock
       \<lparr>op = ESP_ERASE_FLASH, data_len = 1, checksum = 0, data_buf = mem_of [0]\<rparr> (idle, [])
     = (Next_command,
        (idle, [Ev_SLIP_send_frame_delimiter,
                Ev_SLIP_send_frame_data_buf
                  \<lparr>resp = 1, op_ret = ESP_ERASE_FLASH, len_ret = 0, value_ret = 0\<rparr>,
                Ev_SLIP_send_frame_data 1,
                Ev_SLIP_send_frame_data 0,
                Ev_SLIP_send_frame_delimiter]))
   \<and> ESP_BAD_DATA_LEN esp32_header = 0xC0
   \<and> ESP_BAD_DATA_LEN esp32_header \<noteq> 1"
  by (simp add: eval_defs)

text \<open>
  The data commands. \<^verbatim>\<open>payload_len\<close> is the \<^verbatim>\<open>int\<close> \<open>data_len - 16\<close>, and the
  comparison with the length word converts it to 32 bits unsigned. From \<open>data_len\<close> 16
  on, it is the comparison of the two numbers.
\<close>

lemma uint_word_of_int_small:
  "0 \<le> (k::int) \<Longrightarrow> k < 2 ^ 32 \<Longrightarrow> uint (word_of_int k :: u32) = k"
  by (simp add: uint_word_of_int_eq take_bit_int_eq_self)

lemma length_word_eq:
  assumes "16 \<le> unat (n :: u16)"
  shows "((w :: u32) = word_of_int (uint n - 16)) = (uint w = uint n - 16)"
proof -
  have "uint n = int (unat n)"
    by (rule uint_nat)
  then have lo: "0 \<le> uint n - 16"
    using assms by linarith
  have "uint n < 2 ^ 16"
    using uint_bounded [of n] by simp
  then have hi: "uint n - 16 < 2 ^ 32"
    by simp
  have m: "uint (word_of_int (uint n - 16) :: u32) = uint n - 16"
    using lo hi by (rule uint_word_of_int_small)
  show ?thesis
  proof
    assume "w = word_of_int (uint n - 16)"
    then show "uint w = uint n - 16"
      using m by simp
  next
    assume "uint w = uint n - 16"
    then have "word_of_int (uint w) = (word_of_int (uint n - 16) :: u32)"
      by simp
    then show "w = word_of_int (uint n - 16)"
      by simp
  qed
qed

text \<open>
  Below 16 it is not: \<open>payload_len\<close> is negative there, and the code has no check of
  \<open>data_len\<close> against 16. This \<^verbatim>\<open>FLASH_DATA\<close> command of 4 bytes, whose length word
  0xFFFFFFF4 is -12 converted, is accepted, and \<^verbatim>\<open>handle_flash_data\<close> is called with the
  length -12. The two theorems on the data commands are about \<open>data_len\<close> from 16 on
  and say nothing of shorter commands.
\<close>

lemma flash_data_short_frame_accepted:
  "snd (snd (cmd_iter esp32_header mock
       \<lparr>op = ESP_FLASH_DATA, data_len = 4, checksum = 0xEF,
        data_buf = mem_of [0xF4, 0xFF, 0xFF, 0xFF]\<rparr> (writing, [])))
     = [Ev_SLIP_send_frame_delimiter,
        Ev_SLIP_send_frame_data_buf
          \<lparr>resp = 1, op_ret = ESP_FLASH_DATA, len_ret = 0, value_ret = 0\<rparr>,
        Ev_is_in_flash_mode,
        Ev_get_flash_error,
        Ev_SLIP_send_frame_data 0,
        Ev_SLIP_send_frame_data 0,
        Ev_SLIP_send_frame_delimiter,
        Ev_handle_flash_data [] (- 12)]"
  by (simp add: eval_defs)

text \<open>
  A pass of the loop on a data command in flash write mode: the error computed by the
  first switch, with the comparison as the code makes it.
\<close>

lemma flash_data_pass:
  assumes "op c = ESP_FLASH_DATA \<or> op c = ESP_FLASH_DEFLATED_DATA"
    and "unat (data_len c) \<le> MAX_WRITE_BLOCK h + 16"
    and "is_in_flash_mode P w = (True, w1)"
    and "get_flash_error P w1 = (e0, w2)"
  shows "cmd_iter h P c (w, tr) =
      second_stage h P c
        (if calculate_checksum (\<lambda>i. data_buf c (16 + i)) (uint (data_len c) - 16) \<noteq> checksum c
         then ESP_BAD_DATA_CHECKSUM h
         else if data_words c 0 \<noteq> word_of_int (uint (data_len c) - 16)
         then ESP_BAD_DATA_LEN h
         else e0)
        (w2, tr @ [Ev_SLIP_send_frame_delimiter,
                Ev_SLIP_send_frame_data_buf
                  \<lparr>resp = 1, op_ret = op c, len_ret = 0, value_ret = 0\<rparr>,
                Ev_is_in_flash_mode,
                Ev_get_flash_error,
                Ev_SLIP_send_frame_data
                  (if calculate_checksum (\<lambda>i. data_buf c (16 + i)) (uint (data_len c) - 16)
                        \<noteq> checksum c
                   then ESP_BAD_DATA_CHECKSUM h
                   else if data_words c 0 \<noteq> word_of_int (uint (data_len c) - 16)
                   then ESP_BAD_DATA_LEN h
                   else e0),
                Ev_SLIP_send_frame_data 0,
                Ev_SLIP_send_frame_delimiter])"
  using assms by (auto simp: cmd_iter_def first_stage_def flash_data_stage_def call_def emit_def Let_def)

text \<open>
  Claim C2, as amended. For \<^verbatim>\<open>FLASH_DATA\<close> and \<^verbatim>\<open>FLASH_DEFLATED_DATA\<close> in flash
  write mode, with \<open>data_len\<close> at least 16 (the data header) and within the maximum, the
  first payload word is compared with the number \<open>data_len - 16\<close>, and the checksum is
  computed over the payload after the 16-byte data header, \<open>data_len - 16\<close> bytes from
  \<open>data_buf + 16\<close>. The error sent is \<^verbatim>\<open>ESP_BAD_DATA_CHECKSUM\<close> when that checksum is
  not the header's checksum field, else \<^verbatim>\<open>ESP_BAD_DATA_LEN\<close> when the length word is
  not \<open>data_len - 16\<close>, else the pending flash error; so the command succeeds exactly
  when the checksum matches, the length word is \<open>data_len - 16\<close> and no flash error is
  pending.
\<close>

theorem cmd_iter_flash_data_checksum:
  assumes "op c = ESP_FLASH_DATA \<or> op c = ESP_FLASH_DEFLATED_DATA"
    and "16 \<le> unat (data_len c)"
    and "unat (data_len c) \<le> MAX_WRITE_BLOCK h + 16"
    and "is_in_flash_mode P w = (True, w1)"
    and "get_flash_error P w1 = (e0, w2)"
    and "ESP_BAD_DATA_LEN h \<noteq> ESP_OK" and "ESP_BAD_DATA_CHECKSUM h \<noteq> ESP_OK"
  shows "\<exists>e.
    cmd_iter h P c (w, tr) =
      second_stage h P c e
        (w2, tr @ [Ev_SLIP_send_frame_delimiter,
                Ev_SLIP_send_frame_data_buf
                  \<lparr>resp = 1, op_ret = op c, len_ret = 0, value_ret = 0\<rparr>,
                Ev_is_in_flash_mode,
                Ev_get_flash_error,
                Ev_SLIP_send_frame_data e,
                Ev_SLIP_send_frame_data 0,
                Ev_SLIP_send_frame_delimiter])
    \<and> e = (if calculate_checksum (\<lambda>i. data_buf c (16 + i)) (uint (data_len c) - 16) \<noteq> checksum c
           then ESP_BAD_DATA_CHECKSUM h
           else if uint (data_words c 0) \<noteq> uint (data_len c) - 16
           then ESP_BAD_DATA_LEN h
           else e0)
    \<and> (e = ESP_OK \<longleftrightarrow>
         calculate_checksum (\<lambda>i. data_buf c (16 + i)) (uint (data_len c) - 16) = checksum c
         \<and> uint (data_words c 0) = uint (data_len c) - 16
         \<and> e0 = ESP_OK)"
proof -
  let ?e = "if calculate_checksum (\<lambda>i. data_buf c (16 + i)) (uint (data_len c) - 16) \<noteq> checksum c
           then ESP_BAD_DATA_CHECKSUM h
           else if uint (data_words c 0) \<noteq> uint (data_len c) - 16
           then ESP_BAD_DATA_LEN h
           else e0"
  note lw = length_word_eq [OF assms(2), of "data_words c 0"]
  have 1: "cmd_iter h P c (w, tr) =
      second_stage h P c ?e
        (w2, tr @ [Ev_SLIP_send_frame_delimiter,
                Ev_SLIP_send_frame_data_buf
                  \<lparr>resp = 1, op_ret = op c, len_ret = 0, value_ret = 0\<rparr>,
                Ev_is_in_flash_mode,
                Ev_get_flash_error,
                Ev_SLIP_send_frame_data ?e,
                Ev_SLIP_send_frame_data 0,
                Ev_SLIP_send_frame_delimiter])"
    using flash_data_pass [OF assms(1,3,4,5), of tr] unfolding lw .
  have 2: "?e = ESP_OK \<longleftrightarrow>
         calculate_checksum (\<lambda>i. data_buf c (16 + i)) (uint (data_len c) - 16) = checksum c
         \<and> uint (data_words c 0) = uint (data_len c) - 16
         \<and> e0 = ESP_OK"
    using assms(6,7) by (simp split: if_splits)
  show ?thesis
    using 1 2 by blast
qed

theorem cmd_iter_flash_data_checksum_witness:
  "(op (flash_data_cmd [1, 0, 0, 0] 0x45 [0xAA]) = ESP_FLASH_DATA
      \<or> op (flash_data_cmd [1, 0, 0, 0] 0x45 [0xAA]) = ESP_FLASH_DEFLATED_DATA)
   \<and> 16 \<le> unat (data_len (flash_data_cmd [1, 0, 0, 0] 0x45 [0xAA]))
   \<and> unat (data_len (flash_data_cmd [1, 0, 0, 0] 0x45 [0xAA])) \<le> MAX_WRITE_BLOCK esp32_header + 16
   \<and> is_in_flash_mode mock writing = (True, writing)
   \<and> get_flash_error mock writing = (0, writing)
   \<and> ESP_BAD_DATA_LEN esp32_header \<noteq> ESP_OK \<and> ESP_BAD_DATA_CHECKSUM esp32_header \<noteq> ESP_OK
   \<and> calculate_checksum (\<lambda>i. data_buf (flash_data_cmd [1, 0, 0, 0] 0x45 [0xAA]) (16 + i))
         (uint (data_len (flash_data_cmd [1, 0, 0, 0] 0x45 [0xAA])) - 16)
       = checksum (flash_data_cmd [1, 0, 0, 0] 0x45 [0xAA])
   \<and> uint (data_words (flash_data_cmd [1, 0, 0, 0] 0x45 [0xAA]) 0)
       = uint (data_len (flash_data_cmd [1, 0, 0, 0] 0x45 [0xAA])) - 16
   \<and> cmd_iter esp32_header mock (flash_data_cmd [1, 0, 0, 0] 0x45 [0xAA]) (writing, []) =
        second_stage esp32_header mock (flash_data_cmd [1, 0, 0, 0] 0x45 [0xAA]) ESP_OK
          (writing, [Ev_SLIP_send_frame_delimiter,
                Ev_SLIP_send_frame_data_buf
                  \<lparr>resp = 1, op_ret = ESP_FLASH_DATA, len_ret = 0, value_ret = 0\<rparr>,
                Ev_is_in_flash_mode,
                Ev_get_flash_error,
                Ev_SLIP_send_frame_data ESP_OK,
                Ev_SLIP_send_frame_data 0,
                Ev_SLIP_send_frame_delimiter])"
proof -
  let ?c = "flash_data_cmd [1, 0, 0, 0] 0x45 [0xAA]"
  have 1: "op ?c = ESP_FLASH_DATA \<or> op ?c = ESP_FLASH_DEFLATED_DATA"
    by (simp add: flash_data_cmd_def)
  have 0: "16 \<le> unat (data_len ?c)"
    by (simp add: flash_data_cmd_def)
  have 2: "unat (data_len ?c) \<le> MAX_WRITE_BLOCK esp32_header + 16"
    by (simp add: flash_data_cmd_def esp32_header_def)
  have 3: "is_in_flash_mode mock writing = (True, writing)"
    by (simp add: mock_def writing_def)
  have 4: "get_flash_error mock writing = (0, writing)"
    by (simp add: mock_def)
  have 5: "ESP_BAD_DATA_LEN esp32_header \<noteq> ESP_OK"
    and 6: "ESP_BAD_DATA_CHECKSUM esp32_header \<noteq> ESP_OK"
    by (simp_all add: esp32_header_def ESP_OK_def)
  have 7: "calculate_checksum (\<lambda>i. data_buf ?c (16 + i)) (uint (data_len ?c) - 16) = checksum ?c"
    by (simp add: flash_data_cmd_def calculate_checksum_def mem_of_def upt_rec)
  have 8: "uint (data_words ?c 0) = uint (data_len ?c) - 16"
    by (simp add: flash_data_cmd_def data_words_def mem_of_def)
  have 9: "op ?c = ESP_FLASH_DATA"
    by (simp add: flash_data_cmd_def)
  show ?thesis
    using cmd_iter_flash_data_checksum [OF 1 0 2 3 4 5 6, of "[]"] 0 1 2 3 4 5 6 7 8
    unfolding 9 by (simp add: ESP_OK_def)
qed

text \<open>
  Claim C2 as stated fails: this \<^verbatim>\<open>FLASH_DATA\<close> command succeeds and its byte is
  handed to \<^verbatim>\<open>handle_flash_data\<close>, while the checksum of everything after the length
  word is 0x44 and the header's checksum field is 0x45.
\<close>

theorem flash_data_checksum_counterexample:
  "snd (snd (cmd_iter esp32_header mock (flash_data_cmd [1, 0, 0, 0] 0x45 [0xAA]) (writing, [])))
     = [Ev_SLIP_send_frame_delimiter,
        Ev_SLIP_send_frame_data_buf
          \<lparr>resp = 1, op_ret = ESP_FLASH_DATA, len_ret = 0, value_ret = 0\<rparr>,
        Ev_is_in_flash_mode,
        Ev_get_flash_error,
        Ev_SLIP_send_frame_data ESP_OK,
        Ev_SLIP_send_frame_data 0,
        Ev_SLIP_send_frame_delimiter,
        Ev_handle_flash_data [0xAA] 1]
   \<and> checksum_after_length_word (flash_data_cmd [1, 0, 0, 0] 0x45 [0xAA]) = 0x44
   \<and> checksum (flash_data_cmd [1, 0, 0, 0] 0x45 [0xAA]) = 0x45
   \<and> checksum_after_length_word (flash_data_cmd [1, 0, 0, 0] 0x45 [0xAA])
        \<noteq> checksum (flash_data_cmd [1, 0, 0, 0] 0x45 [0xAA])"
  by (simp add: eval_defs checksum_after_length_word_def)

text \<open>
  A pass of the loop on \<^verbatim>\<open>FLASH_DATA\<close> in a write session when the comparison of the
  length word, as the code makes it, fails.
\<close>

lemma flash_data_bad_length_pass:
  assumes "op c = ESP_FLASH_DATA"
    and "is_in_flash_mode P w = (True, w1)"
    and "get_flash_error P w1 = (e0, w2)"
    and "data_words c 0 \<noteq> word_of_int (uint (data_len c) - 16)"
    and "ESP_BAD_DATA_LEN h \<noteq> ESP_OK" and "ESP_BAD_DATA_CHECKSUM h \<noteq> ESP_OK"
  shows "cmd_iter h P c (w, tr) =
    (Next_command,
     if MAX_WRITE_BLOCK h + 16 < unat (data_len c) then
       (w, tr @ [Ev_SLIP_send_frame_delimiter,
                 Ev_SLIP_send_frame_data_buf
                   \<lparr>resp = 1, op_ret = ESP_FLASH_DATA, len_ret = 0, value_ret = 0\<rparr>,
                 Ev_SLIP_send_frame_data (ESP_BAD_DATA_LEN h),
                 Ev_SLIP_send_frame_data 0xEE,
                 Ev_SLIP_send_frame_delimiter])
     else
       (w2, tr @ [Ev_SLIP_send_frame_delimiter,
                 Ev_SLIP_send_frame_data_buf
                   \<lparr>resp = 1, op_ret = ESP_FLASH_DATA, len_ret = 0, value_ret = 0\<rparr>,
                 Ev_is_in_flash_mode,
                 Ev_get_flash_error,
                 Ev_SLIP_send_frame_data
                   (if calculate_checksum (\<lambda>i. data_buf c (16 + i)) (uint (data_len c) - 16)
                         = checksum c
                    then ESP_BAD_DATA_LEN h else ESP_BAD_DATA_CHECKSUM h),
                 Ev_SLIP_send_frame_data 0,
                 Ev_SLIP_send_frame_delimiter]))"
  using assms by (auto simp: iter_defs)

text \<open>
  Claim C3, as amended. For \<^verbatim>\<open>FLASH_DATA\<close> in a write session, with \<open>data_len\<close> at
  least 16 (the data header), whose length word is not the number \<open>data_len - 16\<close>, no
  byte is forwarded: \<^verbatim>\<open>handle_flash_data\<close> is not called. The error sent is
  \<^verbatim>\<open>ESP_BAD_DATA_LEN\<close> when the command is longer than the maximum or the checksum of
  the payload after the 16-byte data header equals the header's checksum field, and
  \<^verbatim>\<open>ESP_BAD_DATA_CHECKSUM\<close> otherwise.
\<close>

theorem cmd_iter_flash_data_bad_length:
  assumes "op c = ESP_FLASH_DATA"
    and "16 \<le> unat (data_len c)"
    and "is_in_flash_mode P w = (True, w1)"
    and "get_flash_error P w1 = (e0, w2)"
    and "uint (data_words c 0) \<noteq> uint (data_len c) - 16"
    and "ESP_BAD_DATA_LEN h \<noteq> ESP_OK" and "ESP_BAD_DATA_CHECKSUM h \<noteq> ESP_OK"
  shows "cmd_iter h P c (w, tr) =
    (Next_command,
     if MAX_WRITE_BLOCK h + 16 < unat (data_len c) then
       (w, tr @ [Ev_SLIP_send_frame_delimiter,
                 Ev_SLIP_send_frame_data_buf
                   \<lparr>resp = 1, op_ret = ESP_FLASH_DATA, len_ret = 0, value_ret = 0\<rparr>,
                 Ev_SLIP_send_frame_data (ESP_BAD_DATA_LEN h),
                 Ev_SLIP_send_frame_data 0xEE,
                 Ev_SLIP_send_frame_delimiter])
     else
       (w2, tr @ [Ev_SLIP_send_frame_delimiter,
                 Ev_SLIP_send_frame_data_buf
                   \<lparr>resp = 1, op_ret = ESP_FLASH_DATA, len_ret = 0, value_ret = 0\<rparr>,
                 Ev_is_in_flash_mode,
                 Ev_get_flash_error,
                 Ev_SLIP_send_frame_data
                   (if calculate_checksum (\<lambda>i. data_buf c (16 + i)) (uint (data_len c) - 16)
                         = checksum c
                    then ESP_BAD_DATA_LEN h else ESP_BAD_DATA_CHECKSUM h),
                 Ev_SLIP_send_frame_data 0,
                 Ev_SLIP_send_frame_delimiter]))"
proof -
  have "data_words c 0 \<noteq> word_of_int (uint (data_len c) - 16)"
    unfolding length_word_eq [OF assms(2), of "data_words c 0"] by (rule assms(5))
  then show ?thesis
    by (rule flash_data_bad_length_pass [OF assms(1,3,4) _ assms(6,7)])
qed

theorem cmd_iter_flash_data_bad_length_witness:
  "op (flash_data_cmd [0, 1, 0, 0] 0xFE [0xAA, 0xBB]) = ESP_FLASH_DATA
   \<and> 16 \<le> unat (data_len (flash_data_cmd [0, 1, 0, 0] 0xFE [0xAA, 0xBB]))
   \<and> is_in_flash_mode mock writing = (True, writing)
   \<and> get_flash_error mock writing = (0, writing)
   \<and> uint (data_words (flash_data_cmd [0, 1, 0, 0] 0xFE [0xAA, 0xBB]) 0)
        \<noteq> uint (data_len (flash_data_cmd [0, 1, 0, 0] 0xFE [0xAA, 0xBB])) - 16
   \<and> ESP_BAD_DATA_LEN esp32_header \<noteq> ESP_OK \<and> ESP_BAD_DATA_CHECKSUM esp32_header \<noteq> ESP_OK
   \<and> cmd_iter esp32_header mock (flash_data_cmd [0, 1, 0, 0] 0xFE [0xAA, 0xBB]) (writing, []) =
       (Next_command,
        (writing, [Ev_SLIP_send_frame_delimiter,
                 Ev_SLIP_send_frame_data_buf
                   \<lparr>resp = 1, op_ret = ESP_FLASH_DATA, len_ret = 0, value_ret = 0\<rparr>,
                 Ev_is_in_flash_mode,
                 Ev_get_flash_error,
                 Ev_SLIP_send_frame_data (ESP_BAD_DATA_LEN esp32_header),
                 Ev_SLIP_send_frame_data 0,
                 Ev_SLIP_send_frame_delimiter]))"
proof -
  let ?c = "flash_data_cmd [0, 1, 0, 0] 0xFE [0xAA, 0xBB]"
  have 1: "op ?c = ESP_FLASH_DATA"
    by (simp add: flash_data_cmd_def)
  have 0: "16 \<le> unat (data_len ?c)"
    by (simp add: flash_data_cmd_def)
  have 2: "is_in_flash_mode mock writing = (True, writing)"
    by (simp add: mock_def writing_def)
  have 3: "get_flash_error mock writing = (0, writing)"
    by (simp add: mock_def)
  have 4: "uint (data_words ?c 0) \<noteq> uint (data_len ?c) - 16"
    by (simp add: flash_data_cmd_def data_words_def mem_of_def)
  have 5: "ESP_BAD_DATA_LEN esp32_header \<noteq> ESP_OK"
    and 6: "ESP_BAD_DATA_CHECKSUM esp32_header \<noteq> ESP_OK"
    by (simp_all add: esp32_header_def ESP_OK_def)
  have 7: "calculate_checksum (\<lambda>i. data_buf ?c (16 + i)) (uint (data_len ?c) - 16) = checksum ?c"
    by (simp add: flash_data_cmd_def calculate_checksum_def mem_of_def upt_rec)
  have 8: "\<not> MAX_WRITE_BLOCK esp32_header + 16 < unat (data_len ?c)"
    by (simp add: flash_data_cmd_def esp32_header_def)
  show ?thesis
    using cmd_iter_flash_data_bad_length [OF 1 0 2 3 4 5 6, of "[]"] 0 1 2 3 4 5 6
    by (simp only: 7 8 if_True if_False simp_thms append_Nil)
qed

text \<open>
  Claim C3 as stated fails: after \<^verbatim>\<open>FLASH_BEGIN\<close>, this \<^verbatim>\<open>FLASH_DATA\<close> command has
  the length word 256 and 2 bytes of data, its checksum does not match either, and the
  error sent is \<^verbatim>\<open>ESP_BAD_DATA_CHECKSUM\<close>, not \<^verbatim>\<open>ESP_BAD_DATA_LEN\<close>.
\<close>

theorem flash_data_bad_length_counterexample:
  "snd (snd (cmd_loop esp32_header mock
               [flash_begin_cmd, flash_data_cmd [0, 1, 0, 0] 0 [0xAA, 0xBB]] (idle, [])))
     = [Ev_SLIP_send_frame_delimiter,
        Ev_SLIP_send_frame_data_buf
          \<lparr>resp = 1, op_ret = ESP_FLASH_BEGIN, len_ret = 0, value_ret = 0\<rparr>,
        Ev_handle_flash_begin 1024 0x1000,
        Ev_SLIP_send_frame_data 0,
        Ev_SLIP_send_frame_data 0,
        Ev_SLIP_send_frame_delimiter,
        Ev_SLIP_send_frame_delimiter,
        Ev_SLIP_send_frame_data_buf
          \<lparr>resp = 1, op_ret = ESP_FLASH_DATA, len_ret = 0, value_ret = 0\<rparr>,
        Ev_is_in_flash_mode,
        Ev_get_flash_error,
        Ev_SLIP_send_frame_data (ESP_BAD_DATA_CHECKSUM esp32_header),
        Ev_SLIP_send_frame_data 0,
        Ev_SLIP_send_frame_delimiter]
   \<and> data_words (flash_data_cmd [0, 1, 0, 0] 0 [0xAA, 0xBB]) 0 = 256
   \<and> uint (data_len (flash_data_cmd [0, 1, 0, 0] 0 [0xAA, 0xBB])) - 16 = 2
   \<and> ESP_BAD_DATA_CHECKSUM esp32_header \<noteq> ESP_BAD_DATA_LEN esp32_header"
  by (simp add: eval_defs)

end
